theory Spec2Isabelle
  imports Complex_Main "HOL-Library.Log_Nat"
begin

section \<open>Collager: a shallow embedding of \<^verbatim>\<open>collager.py\<close>\<close>

text \<open>
  Conventions of the embedding.
  \<^item> Python \<^verbatim>\<open>int\<close> is \<^typ>\<open>int\<close>.
  \<^item> Python \<^verbatim>\<open>float\<close> is modelled twice. The first part of the theory reads every
    float as an exact rational (\<^typ>\<open>rat\<close>): this is the idealised arithmetic in which
    the ratio correction is exact. The second part is IEEE 754 binary64 as CPython computes
    it: a float is a value of type \<open>pyfloat\<close>, every operation rounds its exact result to
    the nearest double, ties to even, and the functions of the second part carry the
    suffix \<open>64\<close>. The two zeros are not told apart: the program never observes the sign
    of a zero, since Python raises on a division by either.
  \<^item> An exception is a value of type \<open>error\<close>; a function that may raise returns
    \<open>error + 'a\<close> with \<open>Inl\<close> for the exception.
  \<^item> A loop that may run forever returns an \<open>option\<close>: \<open>None\<close> is "does not return".
  \<^item> \<^verbatim>\<open>random.choice\<close> reads an explicit random source: a function \<open>rnd\<close> from the
    number of the draw to a raw natural number, and a counter \<open>k\<close> of draws made so far.
  \<^item> The file system and the image codec are a parameter \<open>fs\<close>.
  \<^item> A Pillow image is the term that built it; only its size is observed.
  \<^item> Logging and progress bars (\<^verbatim>\<open>logger\<close>, \<^verbatim>\<open>tqdm\<close>) have no effect on results
    and are left out.
\<close>

subsection \<open>Exceptions\<close>

datatype error = TypeError | ValueError | IndexError | ZeroDivisionError | OSError | OverflowError

type_synonym 'a result = "error + 'a"

definition bind_result :: "'a result option \<Rightarrow> ('a \<Rightarrow> 'b result option) \<Rightarrow> 'b result option" where
  "bind_result m f = (case m of None \<Rightarrow> None | Some (Inl e) \<Rightarrow> Some (Inl e) | Some (Inr x) \<Rightarrow> f x)"

text \<open>Sequencing: the first exception ends the computation.\<close>

definition bind_error :: "'a result \<Rightarrow> ('a \<Rightarrow> 'b result) \<Rightarrow> 'b result" where
  "bind_error m f = (case m of Inl e \<Rightarrow> Inl e | Inr x \<Rightarrow> f x)"

subsection \<open>Python numbers\<close>

text \<open>\<^verbatim>\<open>a / b\<close>: true division, raising on a zero divisor.\<close>

definition truediv :: "rat \<Rightarrow> rat \<Rightarrow> rat result" where
  "truediv a b = (if b = 0 then Inl ZeroDivisionError else Inr (a / b))"

text \<open>\<^verbatim>\<open>a // b\<close> on integers: floor division, raising on a zero divisor.\<close>

definition floordiv :: "int \<Rightarrow> int \<Rightarrow> int result" where
  "floordiv a b = (if b = 0 then Inl ZeroDivisionError else Inr (a div b))"

text \<open>\<^verbatim>\<open>round(x)\<close> with one argument: the nearest integer, ties to the even one.\<close>

definition py_round :: "rat \<Rightarrow> int" where
  "py_round x =
     (let f = \<lfloor>x\<rfloor>; d = x - of_int f
      in if d < 1 / 2 then f
         else if 1 / 2 < d then f + 1
         else if even f then f else f + 1)"

subsection \<open>Binary64 floats\<close>

text \<open>A Python float: a finite double, given by its exact value, an infinity or a NaN.\<close>

datatype pyfloat = Fin rat | PosInf | NegInf | NaN

text \<open>The binary exponent of a positive rational \<open>x\<close>: the \<open>e\<close> with
  \<open>2 ^ e \<le> x < 2 ^ (e + 1)\<close>.\<close>

definition floor_log2 :: "rat \<Rightarrow> int" where
  "floor_log2 x =
     (case quotient_of x of (a, b) \<Rightarrow>
        let d = bitlen a - bitlen b in if 2 powi d \<le> x then d else d - 1)"

text \<open>
  Rounding to the nearest double, ties to even: 53 significant bits, the spacing
  \<open>2 ^ -1074\<close> below \<open>2 ^ -1022\<close>, and an infinity when the rounded value reaches
  \<open>2 ^ 1024\<close>.
\<close>

definition fl64 :: "rat \<Rightarrow> pyfloat" where
  "fl64 x =
     (if x = 0 then Fin 0
      else
        let e = max (floor_log2 \<bar>x\<bar>) (- 1022);
            q = 2 powi (e - 52);
            y = of_int (py_round (x / q)) * q
        in if 2 ^ 1024 \<le> y then PosInf
           else if y \<le> - (2 ^ 1024) then NegInf
           else Fin y)"

definition is_double :: "rat \<Rightarrow> bool" where
  "is_double x = (fl64 x = Fin x)"

fun fneg :: "pyfloat \<Rightarrow> pyfloat" where
  "fneg (Fin a) = Fin (- a)"
| "fneg PosInf = NegInf"
| "fneg NegInf = PosInf"
| "fneg NaN = NaN"

fun fadd :: "pyfloat \<Rightarrow> pyfloat \<Rightarrow> pyfloat" where
  "fadd (Fin a) (Fin b) = fl64 (a + b)"
| "fadd NaN y = NaN"
| "fadd x NaN = NaN"
| "fadd PosInf NegInf = NaN"
| "fadd NegInf PosInf = NaN"
| "fadd PosInf y = PosInf"
| "fadd x PosInf = PosInf"
| "fadd NegInf y = NegInf"
| "fadd x NegInf = NegInf"

definition fsub :: "pyfloat \<Rightarrow> pyfloat \<Rightarrow> pyfloat" where
  "fsub x y = fadd x (fneg y)"

text \<open>The sign of a product with an infinity; zero times infinity is a NaN.\<close>

definition signed_inf :: "rat \<Rightarrow> pyfloat \<Rightarrow> pyfloat" where
  "signed_inf a d = (if a = 0 then NaN else if 0 < a then d else fneg d)"

fun fmul :: "pyfloat \<Rightarrow> pyfloat \<Rightarrow> pyfloat" where
  "fmul (Fin a) (Fin b) = fl64 (a * b)"
| "fmul NaN y = NaN"
| "fmul x NaN = NaN"
| "fmul (Fin a) y = signed_inf a y"
| "fmul x (Fin b) = signed_inf b x"
| "fmul PosInf y = y"
| "fmul NegInf y = fneg y"

text \<open>\<^verbatim>\<open>a / b\<close> on floats: Python raises on a zero divisor, whatever the dividend, and
  otherwise divides as IEEE 754 does, an overflow giving an infinity.\<close>

definition fdiv :: "pyfloat \<Rightarrow> pyfloat \<Rightarrow> pyfloat result" where
  "fdiv x y =
     (case y of
        Fin b \<Rightarrow>
          if b = 0 then Inl ZeroDivisionError
          else Inr (case x of
                      Fin a \<Rightarrow> fl64 (a / b)
                    | NaN \<Rightarrow> NaN
                    | d \<Rightarrow> if 0 < b then d else fneg d)
      | NaN \<Rightarrow> Inr NaN
      | d \<Rightarrow> Inr (case x of Fin a \<Rightarrow> Fin 0 | other \<Rightarrow> NaN))"

text \<open>\<^verbatim>\<open>x < y\<close> on floats; a comparison with a NaN is false.\<close>

fun flt :: "pyfloat \<Rightarrow> pyfloat \<Rightarrow> bool" where
  "flt NaN y = False"
| "flt x NaN = False"
| "flt (Fin a) (Fin b) = (a < b)"
| "flt NegInf NegInf = False"
| "flt NegInf y = True"
| "flt x NegInf = False"
| "flt PosInf y = False"
| "flt x PosInf = True"

text \<open>\<^verbatim>\<open>x <= y\<close> on floats, in which the spec states the band of accepted sums.\<close>

fun fle :: "pyfloat \<Rightarrow> pyfloat \<Rightarrow> bool" where
  "fle NaN y = False"
| "fle x NaN = False"
| "fle (Fin a) (Fin b) = (a \<le> b)"
| "fle NegInf y = True"
| "fle x PosInf = True"
| "fle PosInf y = False"
| "fle x NegInf = False"

text \<open>An integer converted to a float, as every mixed operation does first:
  correctly rounded, \<^verbatim>\<open>OverflowError\<close> beyond the range of a double.\<close>

definition of_int64 :: "int \<Rightarrow> pyfloat result" where
  "of_int64 n = (case fl64 (of_int n) of Fin y \<Rightarrow> Inr (Fin y) | other \<Rightarrow> Inl OverflowError)"

text \<open>\<^verbatim>\<open>a / b\<close> on two integers: the exact quotient correctly rounded,
  \<^verbatim>\<open>ZeroDivisionError\<close> on a zero divisor, \<^verbatim>\<open>OverflowError\<close> beyond the range.\<close>

definition int_truediv :: "int \<Rightarrow> int \<Rightarrow> pyfloat result" where
  "int_truediv a b =
     (if b = 0 then Inl ZeroDivisionError
      else case fl64 (of_int a / of_int b) of Fin y \<Rightarrow> Inr (Fin y) | other \<Rightarrow> Inl OverflowError)"

text \<open>\<^verbatim>\<open>round(x)\<close> on a float: \<^verbatim>\<open>OverflowError\<close> for an infinity,
  \<^verbatim>\<open>ValueError\<close> for a NaN.\<close>

definition round64 :: "pyfloat \<Rightarrow> int result" where
  "round64 x =
     (case x of Fin a \<Rightarrow> Inr (py_round a) | NaN \<Rightarrow> Inl ValueError | d \<Rightarrow> Inl OverflowError)"

subsection \<open>Pillow images, by size\<close>

text \<open>
  An image is the expression that produced it: a decoded file, \<^verbatim>\<open>Image.new\<close>,
  \<^verbatim>\<open>crop\<close>, \<^verbatim>\<open>resize\<close>, or the destination of a \<^verbatim>\<open>paste\<close> (which keeps its size).
\<close>

datatype image =
    Decoded string int int
  | Blank int int
  | Cropped image int int int int
  | Resized image int int
  | Pasted image image int int

fun img_width :: "image \<Rightarrow> int" where
  "img_width (Decoded p w h) = w"
| "img_width (Blank w h) = w"
| "img_width (Cropped im l u r b) = r - l"
| "img_width (Resized im w h) = w"
| "img_width (Pasted base im x y) = img_width base"

fun img_height :: "image \<Rightarrow> int" where
  "img_height (Decoded p w h) = h"
| "img_height (Blank w h) = h"
| "img_height (Cropped im l u r b) = b - u"
| "img_height (Resized im w h) = h"
| "img_height (Pasted base im x y) = img_height base"


text \<open>\<^verbatim>\<open>Image.new(mode, (w, h))\<close>: Pillow refuses a negative side.\<close>

definition Image_new :: "int \<times> int \<Rightarrow> image result" where
  "Image_new sz = (case sz of (w, h) \<Rightarrow>
     if w < 0 \<or> h < 0 then Inl ValueError else Inr (Blank w h))"

text \<open>\<^verbatim>\<open>img.crop((left, upper, right, lower))\<close>: Pillow refuses a box whose right or
  lower edge lies before the left or upper one.\<close>

definition crop :: "image \<Rightarrow> int \<times> int \<times> int \<times> int \<Rightarrow> image result" where
  "crop img box = (case box of (l, u, r, b) \<Rightarrow>
     if r < l then Inl ValueError
     else if b < u then Inl ValueError
     else Inr (Cropped img l u r b))"

text \<open>\<^verbatim>\<open>img.resize((w, h), method)\<close>: a copy when the size is unchanged, otherwise
  Pillow refuses a side below one pixel.\<close>

definition resize :: "image \<Rightarrow> int \<times> int \<Rightarrow> image result" where
  "resize img sz = (case sz of (w, h) \<Rightarrow>
     if (img_width img, img_height img) = (w, h) then Inr img
     else if w < 1 \<or> h < 1 then Inl ValueError
     else Inr (Resized img w h))"

text \<open>\<^verbatim>\<open>base.paste(img, (x, y))\<close> changes \<open>base\<close> in place; here it returns the new canvas.\<close>

definition paste :: "image \<Rightarrow> image \<Rightarrow> int \<times> int \<Rightarrow> image" where
  "paste base img pos = (case pos of (x, y) \<Rightarrow> Pasted base img x y)"

subsection \<open>The file system and the codec\<close>

record filesystem =
  listdir :: "string \<Rightarrow> string list option"
  isfile :: "string \<Rightarrow> bool"
  image_size :: "string \<Rightarrow> (int \<times> int) option"

text \<open>\<^verbatim>\<open>Image.open(path)\<close>: an unreadable file raises a subclass of \<^verbatim>\<open>OSError\<close>.\<close>

definition Image_open :: "filesystem \<Rightarrow> string \<Rightarrow> image result" where
  "Image_open fs p = (case image_size fs p of None \<Rightarrow> Inl OSError | Some (w, h) \<Rightarrow> Inr (Decoded p w h))"

subsection \<open>Catalog entries\<close>

text \<open>The dictionaries \<^verbatim>\<open>{"path": ..., "ratio": ...}\<close> of \<^verbatim>\<open>image_data\<close>.\<close>

record image_record =
  path :: string
  ratio :: rat

definition sum_ratios :: "image_record list \<Rightarrow> rat" where
  "sum_ratios items = sum_list (map ratio items)"

text \<open>\<^verbatim>\<open>random.choice(seq)\<close> on the raw random number \<open>r\<close>: an empty sequence raises
  \<^verbatim>\<open>IndexError\<close>, otherwise every position can be drawn.\<close>

definition choice :: "nat \<Rightarrow> 'a list \<Rightarrow> 'a result" where
  "choice r seq = (if seq = [] then Inl IndexError else Inr (seq ! (r mod length seq)))"

subsection \<open>\<^verbatim>\<open>create_line\<close>: the selection loops\<close>

text \<open>
  The inner loop
  \<^verbatim>\<open>while sum_ratios(selected_ratios) < min_ratio: selected_ratios.append(choice(image_data))\<close>
  on the state (draws made, selection).
\<close>

partial_function (option) fill_selection ::
  "(nat \<Rightarrow> nat) \<Rightarrow> image_record list \<Rightarrow> rat \<Rightarrow> nat \<Rightarrow> image_record list
     \<Rightarrow> (nat \<times> image_record list) result option" where
  "fill_selection rnd image_data min_ratio k selected_ratios =
     (if sum_ratios selected_ratios < min_ratio then
        (case choice (rnd k) image_data of
           Inl e \<Rightarrow> Some (Inl e)
         | Inr item \<Rightarrow> fill_selection rnd image_data min_ratio (Suc k) (selected_ratios @ [item]))
      else Some (Inr (k, selected_ratios)))"

text \<open>
  The outer loop \<^verbatim>\<open>while selected_ratios == []:\<close> on the state
  (draws made, \<^verbatim>\<open>iters\<close>, selection): count the pass, fill, and empty the selection
  again when its sum exceeds \<^verbatim>\<open>max_ratio\<close>.
\<close>

partial_function (option) select_loop ::
  "(nat \<Rightarrow> nat) \<Rightarrow> image_record list \<Rightarrow> rat \<Rightarrow> rat \<Rightarrow> nat \<Rightarrow> int \<Rightarrow> image_record list
     \<Rightarrow> (nat \<times> int \<times> image_record list) result option" where
  "select_loop rnd image_data min_ratio max_ratio k iters selected_ratios =
     (if selected_ratios = [] then
        (case fill_selection rnd image_data min_ratio k selected_ratios of
           None \<Rightarrow> None
         | Some (Inl e) \<Rightarrow> Some (Inl e)
         | Some (Inr (k', filled)) \<Rightarrow>
             if max_ratio < sum_ratios filled
             then select_loop rnd image_data min_ratio max_ratio k' (iters + 1) []
             else select_loop rnd image_data min_ratio max_ratio k' (iters + 1) filled)
      else Some (Inr (k, iters, selected_ratios)))"

text \<open>Both loops run as written: their defining equations are code equations.\<close>

declare fill_selection.simps [code] select_loop.simps [code]

subsection \<open>\<^verbatim>\<open>center_crop\<close>\<close>

text \<open>
  The crop box of \<^verbatim>\<open>center_crop\<close>: the left and right edges are cut when the image is
  wider than \<^verbatim>\<open>crop_ratio\<close>, the top and bottom edges otherwise. Both divisions are
  Python's and raise on a zero divisor.
\<close>

definition crop_box :: "image \<Rightarrow> rat \<Rightarrow> (int \<times> int \<times> int \<times> int) result" where
  "crop_box img crop_ratio =
     bind_error (truediv (of_int (img_width img)) (of_int (img_height img))) (\<lambda>img_ratio.
       if crop_ratio < img_ratio then
         (let offset = py_round ((of_int (img_width img) - crop_ratio * of_int (img_height img)) / 2)
          in Inr (offset, 0, img_width img - offset, img_height img))
       else
         bind_error (truediv (of_int (img_width img)) crop_ratio) (\<lambda>q.
           let offset = py_round ((of_int (img_height img) - q) / 2)
           in Inr (0, offset, img_width img, img_height img - offset)))"

definition center_crop :: "image \<Rightarrow> int \<Rightarrow> rat \<Rightarrow> image result" where
  "center_crop img height crop_ratio =
     (let width = py_round (of_int height * crop_ratio)
      in bind_error (crop_box img crop_ratio) (\<lambda>box.
           bind_error (crop img box) (\<lambda>cropped.
             resize cropped (width, height))))"

subsection \<open>\<^verbatim>\<open>create_line\<close>\<close>

text \<open>Lines 134 to 137: the ideal ratio of the line and the band of accepted sums,
  as (\<^verbatim>\<open>line_ratio\<close>, \<^verbatim>\<open>min_ratio\<close>, \<^verbatim>\<open>max_ratio\<close>).\<close>

definition line_bounds :: "int \<Rightarrow> int \<Rightarrow> rat \<Rightarrow> (rat \<times> rat \<times> rat) result" where
  "line_bounds width line_height ratio_delta =
     (let height_shift = ratio_delta * of_int line_height
      in bind_error (truediv (of_int width) (of_int line_height)) (\<lambda>line_ratio.
           bind_error (truediv (of_int width) (of_int line_height + height_shift)) (\<lambda>min_ratio.
             bind_error (truediv (of_int width) (of_int line_height - height_shift)) (\<lambda>max_ratio.
               Inr (line_ratio, min_ratio, max_ratio)))))"

fun map_result :: "('a \<Rightarrow> 'b result) \<Rightarrow> 'a list \<Rightarrow> 'b list result" where
  "map_result f [] = Inr []"
| "map_result f (x # xs) =
     bind_error (f x) (\<lambda>y. bind_error (map_result f xs) (\<lambda>ys. Inr (y # ys)))"

text \<open>Lines 156 to 163: the corrected ratios \<^verbatim>\<open>new_ratios\<close>.\<close>

definition new_ratios :: "rat \<Rightarrow> image_record list \<Rightarrow> rat list result" where
  "new_ratios line_ratio selected_ratios =
     (let curr_ratio = sum_ratios selected_ratios;
          ratio_delta = line_ratio - curr_ratio
      in map_result
           (\<lambda>item. bind_error (truediv (ratio_delta * ratio item) curr_ratio) (\<lambda>q.
              Inr (ratio item + q)))
           selected_ratios)"

text \<open>Lines 168 to 172: open every selected file and crop it to its corrected ratio.\<close>

definition resized_images ::
  "filesystem \<Rightarrow> int \<Rightarrow> image_record list \<Rightarrow> rat list \<Rightarrow> image list result" where
  "resized_images fs line_height selected_ratios ratios =
     map_result
       (\<lambda>(item, r). bind_error (Image_open fs (path item)) (\<lambda>img. center_crop img line_height r))
       (zip selected_ratios ratios)"

text \<open>Lines 178 to 181: paste the crops side by side, \<^verbatim>\<open>current_x\<close> running.\<close>

fun paste_images :: "image \<Rightarrow> int \<Rightarrow> image list \<Rightarrow> image" where
  "paste_images line current_x [] = line"
| "paste_images line current_x (img # imgs) =
     paste_images (paste line img (current_x, 0)) (current_x + img_width img) imgs"

text \<open>Lines 165 to 185: the strip, resized to the requested width.\<close>

definition build_line ::
  "filesystem \<Rightarrow> image_record list \<Rightarrow> rat list \<Rightarrow> int \<Rightarrow> int \<Rightarrow> image result" where
  "build_line fs selected_ratios ratios width line_height =
     bind_error (resized_images fs line_height selected_ratios ratios) (\<lambda>imgs.
       let sum_width = sum_list (map img_width imgs)
       in bind_error (Image_new (sum_width, line_height)) (\<lambda>line.
            resize (paste_images line 0 imgs) (width, line_height)))"

text \<open>
  \<^verbatim>\<open>create_line\<close> returns the strip and \<^verbatim>\<open>iters\<close>; the embedding also returns the
  number of draws made, for the next call.
\<close>

definition create_line ::
  "(nat \<Rightarrow> nat) \<Rightarrow> nat \<Rightarrow> filesystem \<Rightarrow> image_record list \<Rightarrow> int \<Rightarrow> int \<Rightarrow> rat
     \<Rightarrow> ((image \<times> int) \<times> nat) result option" where
  "create_line rnd k fs image_data width line_height ratio_delta =
     (case line_bounds width line_height ratio_delta of
        Inl e \<Rightarrow> Some (Inl e)
      | Inr (line_ratio, min_ratio, max_ratio) \<Rightarrow>
          bind_result (select_loop rnd image_data min_ratio max_ratio k 0 [])
            (\<lambda>(k', iters, selected_ratios).
               Some (bind_error (new_ratios line_ratio selected_ratios) (\<lambda>ratios.
                 bind_error (build_line fs selected_ratios ratios width line_height) (\<lambda>line.
                   Inr ((line, iters), k'))))))"

subsection \<open>\<^verbatim>\<open>collage\<close>\<close>

definition py_range :: "int \<Rightarrow> int list" where
  "py_range n = map int [0..<nat n]"

text \<open>The loop \<^verbatim>\<open>for line_n in range(lines)\<close> on the state (draws made, canvas).\<close>

fun collage_lines ::
  "(nat \<Rightarrow> nat) \<Rightarrow> filesystem \<Rightarrow> image_record list \<Rightarrow> int \<Rightarrow> int \<Rightarrow> rat
     \<Rightarrow> int list \<Rightarrow> nat \<times> image \<Rightarrow> (nat \<times> image) result option" where
  "collage_lines rnd fs image_data width line_height ratio_delta [] st = Some (Inr st)"
| "collage_lines rnd fs image_data width line_height ratio_delta (line_n # rest) st =
     bind_result (create_line rnd (fst st) fs image_data width line_height ratio_delta)
       (\<lambda>((line, iters), k').
          collage_lines rnd fs image_data width line_height ratio_delta rest
            (k', paste (snd st) line (0, line_n * line_height)))"

text \<open>Lines 201 to 211: the canvas with every line pasted, before the last resize.\<close>

definition collage_canvas ::
  "(nat \<Rightarrow> nat) \<Rightarrow> nat \<Rightarrow> filesystem \<Rightarrow> image_record list \<Rightarrow> int \<Rightarrow> int \<Rightarrow> int \<Rightarrow> rat
     \<Rightarrow> (nat \<times> image) result option" where
  "collage_canvas rnd k fs image_data width height lines ratio_delta =
     (case floordiv height lines of
        Inl e \<Rightarrow> Some (Inl e)
      | Inr line_height \<Rightarrow>
          (case Image_new (width, line_height * lines) of
             Inl e \<Rightarrow> Some (Inl e)
           | Inr canvas \<Rightarrow>
               collage_lines rnd fs image_data width line_height ratio_delta
                 (py_range lines) (k, canvas)))"

definition collage ::
  "(nat \<Rightarrow> nat) \<Rightarrow> nat \<Rightarrow> filesystem \<Rightarrow> image_record list \<Rightarrow> int \<Rightarrow> int \<Rightarrow> int \<Rightarrow> rat
     \<Rightarrow> (image \<times> nat) result option" where
  "collage rnd k fs image_data width height lines ratio_delta =
     bind_result (collage_canvas rnd k fs image_data width height lines ratio_delta)
       (\<lambda>(k', canvas).
          Some (bind_error (resize canvas (width, height)) (\<lambda>img. Inr (img, k'))))"

section \<open>The same program in binary64 arithmetic\<close>

subsection \<open>\<^verbatim>\<open>center_crop\<close>\<close>

text \<open>Line 107: \<^verbatim>\<open>width = round(height * crop_ratio)\<close>.\<close>

definition target_width :: "int \<Rightarrow> pyfloat \<Rightarrow> int result" where
  "target_width height crop_ratio =
     bind_error (of_int64 height) (\<lambda>h. round64 (fmul h crop_ratio))"

text \<open>\<^verbatim>\<open>round(d / 2)\<close> for a float \<open>d\<close>.\<close>

definition half_rounded :: "pyfloat \<Rightarrow> int result" where
  "half_rounded d = bind_error (fdiv d (Fin 2)) round64"

text \<open>Lines 108 to 115: the crop box.\<close>

definition crop_box64 :: "image \<Rightarrow> pyfloat \<Rightarrow> (int \<times> int \<times> int \<times> int) result" where
  "crop_box64 img crop_ratio =
     bind_error (int_truediv (img_width img) (img_height img)) (\<lambda>img_ratio.
       if flt crop_ratio img_ratio then
         bind_error (of_int64 (img_height img)) (\<lambda>h.
           bind_error (of_int64 (img_width img)) (\<lambda>w.
             bind_error (half_rounded (fsub w (fmul crop_ratio h))) (\<lambda>offset.
               Inr (offset, 0, img_width img - offset, img_height img))))
       else
         bind_error (of_int64 (img_width img)) (\<lambda>w.
           bind_error (fdiv w crop_ratio) (\<lambda>q.
             bind_error (of_int64 (img_height img)) (\<lambda>h.
               bind_error (half_rounded (fsub h q)) (\<lambda>offset.
                 Inr (0, offset, img_width img, img_height img - offset))))))"

definition center_crop64 :: "image \<Rightarrow> int \<Rightarrow> pyfloat \<Rightarrow> image result" where
  "center_crop64 img height crop_ratio =
     bind_error (target_width height crop_ratio) (\<lambda>width.
       bind_error (crop_box64 img crop_ratio) (\<lambda>box.
         bind_error (crop img box) (\<lambda>cropped.
           resize cropped (width, height))))"

subsection \<open>\<^verbatim>\<open>create_line\<close>\<close>

text \<open>Lines 134 to 137. \<^verbatim>\<open>ratio_delta\<close> is a float, as annotated.\<close>

definition line_bounds64 :: "int \<Rightarrow> int \<Rightarrow> pyfloat \<Rightarrow> (pyfloat \<times> pyfloat \<times> pyfloat) result" where
  "line_bounds64 width line_height ratio_delta =
     bind_error (of_int64 line_height) (\<lambda>h.
       let height_shift = fmul ratio_delta h
       in bind_error (int_truediv width line_height) (\<lambda>line_ratio.
            bind_error (of_int64 width) (\<lambda>w.
              bind_error (fdiv w (fadd h height_shift)) (\<lambda>min_ratio.
                bind_error (fdiv w (fsub h height_shift)) (\<lambda>max_ratio.
                  Inr (line_ratio, min_ratio, max_ratio))))))"

text \<open>
  \<^verbatim>\<open>sum_ratios\<close> calls the built-in \<^verbatim>\<open>sum\<close>, which adds floats from left to right up
  to CPython 3.11 and with a compensated sum from 3.12. It is a parameter \<open>py_sum\<close> of
  the model; the results below assume no more of it than \<^verbatim>\<open>sum([]) == 0\<close> and
  \<^verbatim>\<open>sum([x]) == x\<close>. \<open>sum_forward\<close> is the sum of CPython 3.11.
\<close>

definition sum_ratios64 :: "(pyfloat list \<Rightarrow> pyfloat) \<Rightarrow> image_record list \<Rightarrow> pyfloat" where
  "sum_ratios64 py_sum items = py_sum (map (\<lambda>item. Fin (ratio item)) items)"

definition sum_forward :: "pyfloat list \<Rightarrow> pyfloat" where
  "sum_forward xs = foldl fadd (Fin 0) xs"

partial_function (option) fill_selection64 ::
  "(pyfloat list \<Rightarrow> pyfloat) \<Rightarrow> (nat \<Rightarrow> nat) \<Rightarrow> image_record list \<Rightarrow> pyfloat \<Rightarrow> nat
     \<Rightarrow> image_record list \<Rightarrow> (nat \<times> image_record list) result option" where
  "fill_selection64 py_sum rnd image_data min_ratio k selected_ratios =
     (if flt (sum_ratios64 py_sum selected_ratios) min_ratio then
        (case choice (rnd k) image_data of
           Inl e \<Rightarrow> Some (Inl e)
         | Inr item \<Rightarrow>
             fill_selection64 py_sum rnd image_data min_ratio (Suc k) (selected_ratios @ [item]))
      else Some (Inr (k, selected_ratios)))"

partial_function (option) select_loop64 ::
  "(pyfloat list \<Rightarrow> pyfloat) \<Rightarrow> (nat \<Rightarrow> nat) \<Rightarrow> image_record list \<Rightarrow> pyfloat \<Rightarrow> pyfloat
     \<Rightarrow> nat \<Rightarrow> int \<Rightarrow> image_record list \<Rightarrow> (nat \<times> int \<times> image_record list) result option" where
  "select_loop64 py_sum rnd image_data min_ratio max_ratio k iters selected_ratios =
     (if selected_ratios = [] then
        (case fill_selection64 py_sum rnd image_data min_ratio k selected_ratios of
           None \<Rightarrow> None
         | Some (Inl e) \<Rightarrow> Some (Inl e)
         | Some (Inr (k', filled)) \<Rightarrow>
             if flt max_ratio (sum_ratios64 py_sum filled)
             then select_loop64 py_sum rnd image_data min_ratio max_ratio k' (iters + 1) []
             else select_loop64 py_sum rnd image_data min_ratio max_ratio k' (iters + 1) filled)
      else Some (Inr (k, iters, selected_ratios)))"

declare fill_selection64.simps [code] select_loop64.simps [code]

text \<open>Lines 156 to 163.\<close>

definition new_ratios64 ::
  "(pyfloat list \<Rightarrow> pyfloat) \<Rightarrow> pyfloat \<Rightarrow> image_record list \<Rightarrow> pyfloat list result" where
  "new_ratios64 py_sum line_ratio selected_ratios =
     (let curr_ratio = sum_ratios64 py_sum selected_ratios;
          ratio_delta = fsub line_ratio curr_ratio
      in map_result
           (\<lambda>item. bind_error (fdiv (fmul ratio_delta (Fin (ratio item))) curr_ratio) (\<lambda>q.
              Inr (fadd (Fin (ratio item)) q)))
           selected_ratios)"

text \<open>Lines 165 to 185.\<close>

definition resized_images64 ::
  "filesystem \<Rightarrow> int \<Rightarrow> image_record list \<Rightarrow> pyfloat list \<Rightarrow> image list result" where
  "resized_images64 fs line_height selected_ratios ratios =
     map_result
       (\<lambda>(item, r). bind_error (Image_open fs (path item)) (\<lambda>img. center_crop64 img line_height r))
       (zip selected_ratios ratios)"

definition build_line64 ::
  "filesystem \<Rightarrow> image_record list \<Rightarrow> pyfloat list \<Rightarrow> int \<Rightarrow> int \<Rightarrow> image result" where
  "build_line64 fs selected_ratios ratios width line_height =
     bind_error (resized_images64 fs line_height selected_ratios ratios) (\<lambda>imgs.
       let sum_width = sum_list (map img_width imgs)
       in bind_error (Image_new (sum_width, line_height)) (\<lambda>line.
            resize (paste_images line 0 imgs) (width, line_height)))"

definition create_line64 ::
  "(pyfloat list \<Rightarrow> pyfloat) \<Rightarrow> (nat \<Rightarrow> nat) \<Rightarrow> nat \<Rightarrow> filesystem \<Rightarrow> image_record list
     \<Rightarrow> int \<Rightarrow> int \<Rightarrow> pyfloat \<Rightarrow> ((image \<times> int) \<times> nat) result option" where
  "create_line64 py_sum rnd k fs image_data width line_height ratio_delta =
     (case line_bounds64 width line_height ratio_delta of
        Inl e \<Rightarrow> Some (Inl e)
      | Inr (line_ratio, min_ratio, max_ratio) \<Rightarrow>
          bind_result (select_loop64 py_sum rnd image_data min_ratio max_ratio k 0 [])
            (\<lambda>(k', iters, selected_ratios).
               Some (bind_error (new_ratios64 py_sum line_ratio selected_ratios) (\<lambda>ratios.
                 bind_error (build_line64 fs selected_ratios ratios width line_height) (\<lambda>line.
                   Inr ((line, iters), k'))))))"

subsection \<open>\<^verbatim>\<open>collage\<close>\<close>

fun collage_lines64 ::
  "(pyfloat list \<Rightarrow> pyfloat) \<Rightarrow> (nat \<Rightarrow> nat) \<Rightarrow> filesystem \<Rightarrow> image_record list \<Rightarrow> int \<Rightarrow> int
     \<Rightarrow> pyfloat \<Rightarrow> int list \<Rightarrow> nat \<times> image \<Rightarrow> (nat \<times> image) result option" where
  "collage_lines64 py_sum rnd fs image_data width line_height ratio_delta [] st = Some (Inr st)"
| "collage_lines64 py_sum rnd fs image_data width line_height ratio_delta (line_n # rest) st =
     bind_result (create_line64 py_sum rnd (fst st) fs image_data width line_height ratio_delta)
       (\<lambda>((line, iters), k').
          collage_lines64 py_sum rnd fs image_data width line_height ratio_delta rest
            (k', paste (snd st) line (0, line_n * line_height)))"

definition collage_canvas64 ::
  "(pyfloat list \<Rightarrow> pyfloat) \<Rightarrow> (nat \<Rightarrow> nat) \<Rightarrow> nat \<Rightarrow> filesystem \<Rightarrow> image_record list
     \<Rightarrow> int \<Rightarrow> int \<Rightarrow> int \<Rightarrow> pyfloat \<Rightarrow> (nat \<times> image) result option" where
  "collage_canvas64 py_sum rnd k fs image_data width height lines ratio_delta =
     (case floordiv height lines of
        Inl e \<Rightarrow> Some (Inl e)
      | Inr line_height \<Rightarrow>
          (case Image_new (width, line_height * lines) of
             Inl e \<Rightarrow> Some (Inl e)
           | Inr canvas \<Rightarrow>
               collage_lines64 py_sum rnd fs image_data width line_height ratio_delta
                 (py_range lines) (k, canvas)))"

definition collage64 ::
  "(pyfloat list \<Rightarrow> pyfloat) \<Rightarrow> (nat \<Rightarrow> nat) \<Rightarrow> nat \<Rightarrow> filesystem \<Rightarrow> image_record list
     \<Rightarrow> int \<Rightarrow> int \<Rightarrow> int \<Rightarrow> pyfloat \<Rightarrow> (image \<times> nat) result option" where
  "collage64 py_sum rnd k fs image_data width height lines ratio_delta =
     bind_result (collage_canvas64 py_sum rnd k fs image_data width height lines ratio_delta)
       (\<lambda>(k', canvas).
          Some (bind_error (resize canvas (width, height)) (\<lambda>img. Inr (img, k'))))"

section \<open>Files and paths\<close>

subsection \<open>Strings and POSIX paths\<close>

definition startswith :: "string \<Rightarrow> string \<Rightarrow> bool" where
  "startswith s prefix = (take (length prefix) s = prefix)"

definition endswith :: "string \<Rightarrow> string \<Rightarrow> bool" where
  "endswith s suffix = (length suffix \<le> length s \<and> drop (length s - length suffix) s = suffix)"

text \<open>\<^verbatim>\<open>s.rfind(c)\<close>: the last position of \<open>c\<close>, or \<open>-1\<close>.\<close>

definition rfind :: "string \<Rightarrow> char \<Rightarrow> int" where
  "rfind s c =
     (if c \<in> set s then int (length s) - 1 - int (length (takeWhile (\<lambda>x. x \<noteq> c) (rev s)))
      else - 1)"

text \<open>\<^verbatim>\<open>os.path.join(a, b)\<close> of \<^verbatim>\<open>posixpath\<close>, for one component \<open>b\<close>.\<close>

definition path_join :: "string \<Rightarrow> string \<Rightarrow> string" where
  "path_join a b =
     (if startswith b ''/'' then b
      else if a = [] \<or> endswith a ''/'' then a @ b
      else a @ ''/'' @ b)"

text \<open>
  \<^verbatim>\<open>os.path.splitext(p)\<close> of \<^verbatim>\<open>posixpath\<close>: the extension starts at the last dot of
  the last component, unless only dots precede it there. The loop below is the one that
  skips those leading dots, from \<open>filenameIndex\<close>.
\<close>

function skip_dots :: "string \<Rightarrow> int \<Rightarrow> int \<Rightarrow> string \<times> string" where
  "skip_dots p dotIndex filenameIndex =
     (if filenameIndex < dotIndex then
        (if take 1 (drop (nat filenameIndex) p) \<noteq> ''.''
         then (take (nat dotIndex) p, drop (nat dotIndex) p)
         else skip_dots p dotIndex (filenameIndex + 1))
      else (p, []))"
  by pat_completeness auto
termination
  by (relation "measure (\<lambda>(p, dotIndex, filenameIndex). nat (dotIndex - filenameIndex))") auto

definition splitext :: "string \<Rightarrow> string \<times> string" where
  "splitext p =
     (let sepIndex = rfind p CHR ''/''; dotIndex = rfind p CHR ''.''
      in if sepIndex < dotIndex then skip_dots p dotIndex (sepIndex + 1) else (p, []))"

subsection \<open>The class \<^verbatim>\<open>Collager\<close>\<close>

definition file_extensions :: "string list" where
  "file_extensions = [''jpg'', ''jpeg'', ''png'', ''bmp'']"

text \<open>
  \<^verbatim>\<open>get_files\<close>: the three tests of the filter are applied to the joined path
  \<^verbatim>\<open>os.path.join(path, file)\<close>, as in the source. \<^verbatim>\<open>os.listdir\<close> raises when the
  directory cannot be listed.
\<close>

definition get_files :: "filesystem \<Rightarrow> string \<Rightarrow> string list \<Rightarrow> string list result" where
  "get_files fs p ext =
     (case listdir fs p of
        None \<Rightarrow> Inl OSError
      | Some names \<Rightarrow>
          Inr (filter
                 (\<lambda>file. isfile fs file \<and> \<not> startswith file ''.''
                    \<and> drop 1 (snd (splitext file)) \<in> set ext)
                 (map (path_join p) names)))"

text \<open>
  \<^verbatim>\<open>get_aspect_ratios\<close> walks a copy of \<^verbatim>\<open>images\<close>; a file that cannot be opened, or
  whose ratio \<^verbatim>\<open>img.width / img.height\<close> cannot be computed, is caught by the bare
  \<^verbatim>\<open>except\<close> and removed from \<^verbatim>\<open>images\<close> itself. The state of the loop is
  (\<^verbatim>\<open>ratios\<close>, \<^verbatim>\<open>images\<close>); both are returned. The ratio stored is the exact value of
  the double that the division yields.
\<close>

fun aspect_loop ::
  "filesystem \<Rightarrow> string list \<Rightarrow> image_record list \<times> string list
     \<Rightarrow> image_record list \<times> string list" where
  "aspect_loop fs [] st = st"
| "aspect_loop fs (file # rest) st =
     (case bind_error (Image_open fs file) (\<lambda>img.
             int_truediv (img_width img) (img_height img)) of
        Inr (Fin r) \<Rightarrow> aspect_loop fs rest (fst st @ [\<lparr>path = file, ratio = r\<rparr>], snd st)
      | _ \<Rightarrow> aspect_loop fs rest (fst st, remove1 file (snd st)))"

definition get_aspect_ratios ::
  "filesystem \<Rightarrow> string list \<Rightarrow> image_record list \<times> string list" where
  "get_aspect_ratios fs images = aspect_loop fs images ([], images)"

text \<open>
  The values \<^verbatim>\<open>update_path\<close> can be called with. The \<^verbatim>\<open>match\<close> statement tells a
  \<^verbatim>\<open>str\<close> and a \<^verbatim>\<open>list\<close> from everything else and does not look at the elements of a
  list, so a list holds values of any kind. Besides strings the model has the other
  values \<^verbatim>\<open>os.listdir\<close> accepts (bytes, an \<^verbatim>\<open>os.PathLike\<close> object, given by its
  \<^verbatim>\<open>__fspath__\<close> string, an integer file descriptor and \<^verbatim>\<open>None\<close>) and, as
  \<open>PyObject\<close>, an object of any class that \<^verbatim>\<open>os.listdir\<close> refuses (a float, a tuple,
  a dict, \<open>\<dots>\<close>).
\<close>

datatype py_value =
    PyStr string
  | PyBytes string
  | PyPath string
  | PyInt int
  | PyNone
  | PyList "py_value list"
  | PyObject

text \<open>\<^verbatim>\<open>isinstance(v, str)\<close> and \<^verbatim>\<open>isinstance(v, list)\<close>, the two class patterns.\<close>

fun is_str :: "py_value \<Rightarrow> bool" where
  "is_str (PyStr s) = True"
| "is_str v = False"

fun is_list :: "py_value \<Rightarrow> bool" where
  "is_list (PyList xs) = True"
| "is_list v = False"

record collager =
  image_path :: "py_value list"
  image_files :: "string list"
  image_data :: "image_record list"

text \<open>Decimal digits of a natural number, for the name of a file descriptor.\<close>

function decimal :: "nat \<Rightarrow> string" where
  "decimal n =
     (if n < 10 then [char_of (48 + n)] else decimal (n div 10) @ [char_of (48 + n mod 10)])"
  by pat_completeness auto
termination
  by (relation "measure id") auto

text \<open>
  \<^verbatim>\<open>self.get_files(p, self.file_extensions)\<close> for an element \<open>p\<close> of a list, whatever
  its class.
  \<^item> A string or a path object is scanned as \<^verbatim>\<open>get_files\<close> does.
  \<^item> \<^verbatim>\<open>None\<close> makes \<^verbatim>\<open>os.listdir\<close> list the current directory; an integer makes it
    list the directory open at that descriptor, which POSIX also names
    \<^verbatim>\<open>/dev/fd/<n>\<close>. \<^verbatim>\<open>os.path.join\<close> then refuses \<open>p\<close> with \<^verbatim>\<open>TypeError\<close> at the
    first name, so only an empty listing gives a result.
  \<^item> Bytes are listed and joined as bytes; \<^verbatim>\<open>file.startswith(".")\<close> raises
    \<^verbatim>\<open>TypeError\<close> on the first entry that is a regular file, and no entry passes the
    filter otherwise.
  \<^item> \<^verbatim>\<open>os.listdir\<close> refuses anything else with \<^verbatim>\<open>TypeError\<close>.
\<close>

definition get_files_any :: "filesystem \<Rightarrow> py_value \<Rightarrow> string list \<Rightarrow> string list result" where
  "get_files_any fs p ext =
     (case p of
        PyStr s \<Rightarrow> get_files fs s ext
      | PyPath s \<Rightarrow> get_files fs s ext
      | PyBytes b \<Rightarrow>
          (case listdir fs b of
             None \<Rightarrow> Inl OSError
           | Some names \<Rightarrow>
               if list_ex (isfile fs) (map (path_join b) names) then Inl TypeError else Inr [])
      | PyNone \<Rightarrow>
          (case listdir fs ''.'' of
             None \<Rightarrow> Inl OSError
           | Some names \<Rightarrow> if names = [] then Inr [] else Inl TypeError)
      | PyInt n \<Rightarrow>
          (if n < 0 then Inl OSError
           else case listdir fs (''/dev/fd/'' @ decimal (nat n)) of
                  None \<Rightarrow> Inl OSError
                | Some names \<Rightarrow> if names = [] then Inr [] else Inl TypeError)
      | PyList xs \<Rightarrow> Inl TypeError
      | PyObject \<Rightarrow> Inl TypeError)"

text \<open>The loop \<^verbatim>\<open>for p in path: self.image_files += self.get_files(p, ...)\<close>.\<close>

fun gather_files :: "filesystem \<Rightarrow> py_value list \<Rightarrow> string list \<Rightarrow> string list \<times> error option" where
  "gather_files fs [] files = (files, None)"
| "gather_files fs (p # ps) files =
     (case get_files_any fs p file_extensions of
        Inl e \<Rightarrow> (files, Some e)
      | Inr found \<Rightarrow> gather_files fs ps (files @ found))"

text \<open>
  \<^verbatim>\<open>update_path\<close> assigns attributes one by one, so an exception leaves the object as
  far as it got: the result is the object and the exception raised, if any.
\<close>

definition update_path :: "filesystem \<Rightarrow> collager \<Rightarrow> py_value \<Rightarrow> collager \<times> error option" where
  "update_path fs self arg =
     (case arg of
        PyStr p \<Rightarrow>
          (let self1 = self\<lparr>image_path := [PyStr p]\<rparr>
           in case get_files fs p file_extensions of
                Inl e \<Rightarrow> (self1, Some e)
              | Inr files \<Rightarrow>
                  (let (ratios, files') = get_aspect_ratios fs files
                   in (self1\<lparr>image_files := files', image_data := ratios\<rparr>, None)))
      | PyList ps \<Rightarrow>
          (let self1 = self\<lparr>image_path := ps, image_files := []\<rparr>
           in case gather_files fs ps [] of
                (files, Some e) \<Rightarrow> (self1\<lparr>image_files := files\<rparr>, Some e)
              | (files, None) \<Rightarrow>
                  (let (ratios, files') = get_aspect_ratios fs files
                   in (self1\<lparr>image_files := files', image_data := ratios\<rparr>, None)))
      | _ \<Rightarrow> (self, Some TypeError))"

text \<open>\<^verbatim>\<open>Collager(path)\<close>: a constructor that raises yields no object.\<close>

definition new_collager :: "filesystem \<Rightarrow> py_value \<Rightarrow> collager result" where
  "new_collager fs arg =
     (case update_path fs \<lparr>image_path = [], image_files = [], image_data = []\<rparr> arg of
        (self, None) \<Rightarrow> Inr self
      | (self, Some e) \<Rightarrow> Inl e)"

subsection \<open>Sample inputs\<close>

text \<open>
  A directory \<^verbatim>\<open>/photos\<close> with a hidden picture, a picture, a text file and a
  sub-directory; the current directory \<^verbatim>\<open>.\<close> with one picture; two readable pictures.
\<close>

definition demo_fs :: filesystem where
  "demo_fs =
     \<lparr>listdir = (\<lambda>p. if p = ''/photos'' then Some [''.hidden.jpg'', ''a.jpg'', ''notes.txt'', ''sub'']
                    else if p = ''.'' then Some [''a.jpg'']
                    else None),
      isfile = (\<lambda>f. f \<noteq> ''/photos/sub''),
      image_size = (\<lambda>p. if p = ''/photos/a.jpg'' then Some (4, 2)
                       else if p = ''/photos/b.jpg'' then Some (100, 200)
                       else None)\<rparr>"

text \<open>A file system whose current directory is empty, and an object with no attribute
  set yet.\<close>

definition empty_dir_fs :: filesystem where
  "empty_dir_fs =
     \<lparr>listdir = (\<lambda>p. if p = ''.'' then Some [] else None),
      isfile = (\<lambda>f. False),
      image_size = (\<lambda>p. None)\<rparr>"

definition fresh_collager :: collager where
  "fresh_collager = \<lparr>image_path = [], image_files = [], image_data = []\<rparr>"

definition wide :: image_record where
  "wide = \<lparr>path = ''/photos/a.jpg'', ratio = 2\<rparr>"

definition tall :: image_record where
  "tall = \<lparr>path = ''/photos/b.jpg'', ratio = 1 / 2\<rparr>"

text \<open>A random source whose every draw picks the first element of the sequence.\<close>

definition first_choice :: "nat \<Rightarrow> nat" where
  "first_choice k = 0"

text \<open>The float \<^verbatim>\<open>0.05\<close>, the tolerance \<^verbatim>\<open>collage\<close> uses by default, and the double
  nearest to one sixth, \<^verbatim>\<open>0.16666666666666666\<close>.\<close>

definition tolerance_5pc :: rat where
  "tolerance_5pc = 3602879701896397 / 72057594037927936"

definition one_sixth :: rat where
  "one_sixth = 6004799503160661 / 36028797018963968"

text \<open>A catalog entry whose ratio is the double \<open>2 ^ -1030\<close>.\<close>

definition speck :: image_record where
  "speck = \<lparr>path = ''/photos/a.jpg'', ratio = 1 / 2 ^ 1030\<rparr>"

section \<open>Properties\<close>

subsection \<open>Results and divisions\<close>

lemma truediv_Inr: "b \<noteq> 0 \<Longrightarrow> truediv a b = Inr (a / b)"
  by (simp add: truediv_def)

lemma bind_error_Inr: "bind_error (Inr x) f = f x"
  by (simp add: bind_error_def)


lemma map_result_Inr:
  assumes "\<And>x. x \<in> set xs \<Longrightarrow> f x = Inr (g x)"
  shows "map_result f xs = Inr (map g xs)"
  using assms by (induction xs) (simp_all add: bind_error_def)

subsection \<open>The band of accepted sums\<close>

lemma line_bounds_Inr:
  assumes "line_bounds width line_height ratio_delta = Inr (line_ratio, min_ratio, max_ratio)"
  shows "line_ratio = of_int width / of_int line_height"
    and "min_ratio = of_int width / (of_int line_height + ratio_delta * of_int line_height)"
    and "max_ratio = of_int width / (of_int line_height - ratio_delta * of_int line_height)"
    and "line_height \<noteq> 0"
  using assms
  by (auto simp: line_bounds_def bind_error_def truediv_def Let_def split: if_splits)

lemma line_bounds_domain:
  assumes "0 < width" "0 < line_height" "0 \<le> ratio_delta" "ratio_delta < 1"
  shows "line_bounds width line_height ratio_delta =
           Inr (of_int width / of_int line_height,
                of_int width / (of_int line_height + ratio_delta * of_int line_height),
                of_int width / (of_int line_height - ratio_delta * of_int line_height))"
    and "0 < of_int width / (of_int line_height + ratio_delta * of_int line_height)"
    and "of_int width / (of_int line_height + ratio_delta * of_int line_height)
           \<le> of_int width / (of_int line_height - ratio_delta * of_int line_height)"
proof -
  have h: "(0::rat) < of_int line_height" using assms by simp
  have w: "(0::rat) < of_int width" using assms by simp
  have p: "(0::rat) < of_int line_height + ratio_delta * of_int line_height"
    using h assms by (simp add: add_pos_nonneg)
  have "ratio_delta * of_int line_height < 1 * of_int line_height"
    using h assms by (intro mult_strict_right_mono) auto
  then have m: "(0::rat) < of_int line_height - ratio_delta * of_int line_height" by simp
  show "line_bounds width line_height ratio_delta =
           Inr (of_int width / of_int line_height,
                of_int width / (of_int line_height + ratio_delta * of_int line_height),
                of_int width / (of_int line_height - ratio_delta * of_int line_height))"
  proof -
    have h0: "(of_int line_height :: rat) \<noteq> 0" using h by simp
    have p0: "(of_int line_height :: rat) + ratio_delta * of_int line_height \<noteq> 0"
      using p by (rule less_imp_neq[THEN not_sym])
    have m0: "(of_int line_height :: rat) - ratio_delta * of_int line_height \<noteq> 0"
      using m by (rule less_imp_neq[THEN not_sym])
    show ?thesis
      by (simp only: line_bounds_def Let_def truediv_Inr[OF h0] truediv_Inr[OF p0]
            truediv_Inr[OF m0] bind_error_Inr)
  qed
  show "0 < of_int width / (of_int line_height + ratio_delta * of_int line_height)"
    using p assms by simp
  have "of_int line_height - ratio_delta * of_int line_height
          \<le> of_int line_height + ratio_delta * of_int line_height"
    using h assms by simp
  then show "of_int width / (of_int line_height + ratio_delta * of_int line_height)
        \<le> of_int width / (of_int line_height - ratio_delta * of_int line_height)"
    using m w by (intro divide_left_mono) (auto simp: add_pos_nonneg)
qed

subsection \<open>What the selection loops guarantee when they return\<close>

text \<open>When the inner loop returns, the sum has reached \<^verbatim>\<open>min_ratio\<close>; the selection is
  unchanged unless the loop was entered.\<close>

lemma fill_selection_exit:
  assumes "fill_selection rnd catalog min_ratio k sel = Some res"
  shows "\<forall>k' sel'. res = Inr (k', sel') \<longrightarrow>
           min_ratio \<le> sum_ratios sel' \<and> (sel' = sel \<or> sum_ratios sel < min_ratio)"
proof (rule fill_selection.raw_induct
    [where P = "\<lambda>rnd catalog min_ratio k sel res. \<forall>k' sel'. res = Inr (k', sel') \<longrightarrow>
           min_ratio \<le> sum_ratios sel' \<and> (sel' = sel \<or> sum_ratios sel < min_ratio)",
     OF _ assms], goal_cases)
  case (1 f rnd catalog min_ratio k sel res)
  show ?case
  proof (cases "sum_ratios sel < min_ratio")
    case True
    with 1(2) show ?thesis
      by (auto split: sum.splits dest: 1(1))
  next
    case False
    with 1(2) show ?thesis by auto
  qed
qed

text \<open>The invariant of the outer loop: the selection is empty, or its sum lies in the
  band and \<^verbatim>\<open>min_ratio\<close> is positive. At the exit the selection is not empty.\<close>

lemma select_loop_exit:
  assumes "select_loop rnd catalog min_ratio max_ratio k iters sel = Some res"
  shows "\<forall>k' iters' sel'. res = Inr (k', iters', sel') \<longrightarrow>
           (sel = [] \<or> (0 < min_ratio \<and> min_ratio \<le> sum_ratios sel \<and> sum_ratios sel \<le> max_ratio)) \<longrightarrow>
           sel' \<noteq> [] \<and> 0 < min_ratio \<and> min_ratio \<le> sum_ratios sel' \<and> sum_ratios sel' \<le> max_ratio"
proof (rule select_loop.raw_induct
    [where P = "\<lambda>rnd catalog min_ratio max_ratio k iters sel res.
         \<forall>k' iters' sel'. res = Inr (k', iters', sel') \<longrightarrow>
           (sel = [] \<or> (0 < min_ratio \<and> min_ratio \<le> sum_ratios sel \<and> sum_ratios sel \<le> max_ratio)) \<longrightarrow>
           sel' \<noteq> [] \<and> 0 < min_ratio \<and> min_ratio \<le> sum_ratios sel' \<and> sum_ratios sel' \<le> max_ratio",
     OF _ assms], goal_cases)
  case (1 f rnd catalog min_ratio max_ratio k iters sel res)
  show ?case
  proof (cases "sel = []")
    case False
    with 1(2) show ?thesis by auto
  next
    case True
    show ?thesis
    proof (intro allI impI)
      fix k' iters' sel'
      assume res: "res = Inr (k', iters', sel')"
      from 1(2) True res obtain k1 filled where
        fill: "fill_selection rnd catalog min_ratio k [] = Some (Inr (k1, filled))"
        by (auto split: option.splits sum.splits)
      from fill_selection_exit[OF fill]
      have ex: "min_ratio \<le> sum_ratios filled" "filled = [] \<or> sum_ratios [] < min_ratio"
        by auto
      show "sel' \<noteq> [] \<and> 0 < min_ratio \<and> min_ratio \<le> sum_ratios sel' \<and> sum_ratios sel' \<le> max_ratio"
      proof (cases "max_ratio < sum_ratios filled")
        case True
        with 1(2) \<open>sel = []\<close> fill res
        have "f rnd catalog min_ratio max_ratio k1 (iters + 1) [] = Some (Inr (k', iters', sel'))"
          by simp
        from 1(1)[OF this] show ?thesis by simp
      next
        case False
        with 1(2) \<open>sel = []\<close> fill res
        have "f rnd catalog min_ratio max_ratio k1 (iters + 1) filled = Some (Inr (k', iters', sel'))"
          by simp
        from 1(1)[OF this] ex False show ?thesis
          by (auto simp: sum_ratios_def)
      qed
    qed
  qed
qed

subsection \<open>Ratio correction\<close>

lemma new_ratios_Inr:
  assumes "sum_ratios selected \<noteq> 0"
  shows "new_ratios line_ratio selected =
           Inr (map (\<lambda>item. ratio item + (line_ratio - sum_ratios selected) * ratio item / sum_ratios selected) selected)"
  unfolding new_ratios_def Let_def
  by (rule map_result_Inr) (simp add: bind_error_def truediv_def assms)

lemma corrected_sum:
  assumes "c \<noteq> 0" "c = sum_list (map f xs)"
  shows "sum_list (map (\<lambda>x. f x + (r - c) * f x / c) xs) = (r::rat)"
proof -
  have "(\<lambda>x. f x + (r - c) * f x / c) = (\<lambda>x. f x + ((r - c) / c) * f x)"
    by (simp add: fun_eq_iff)
  then have "sum_list (map (\<lambda>x. f x + (r - c) * f x / c) xs)
          = sum_list (map f xs) + sum_list (map (\<lambda>x. ((r - c) / c) * f x) xs)"
    by (simp only: sum_list_addf)
  also have "\<dots> = c + ((r - c) / c) * c"
    using assms(2) by (simp only: sum_list_const_mult)
  also have "\<dots> = r" using assms(1) by simp
  finally show ?thesis .
qed

text \<open>
  Claim C1. Whenever the selection loop of \<^verbatim>\<open>create_line\<close> accepts a selection, the
  corrected ratios are computed without a division by zero and are the ones
  \<^verbatim>\<open>create_line\<close> builds the strip from; each is
  \<open>ratio_i + (R - C) * ratio_i / C\<close> with \<open>C\<close> the sum of the selected ratios and
  \<open>R = width / line_height\<close>, and their sum is exactly \<open>R\<close> (over the rationals).
\<close>

theorem create_line_corrected_sum:
  assumes "line_bounds width line_height ratio_delta = Inr (line_ratio, min_ratio, max_ratio)"
    and "select_loop rnd catalog min_ratio max_ratio k 0 [] = Some (Inr (k', iters, selected))"
  shows "\<exists>ratios.
           create_line rnd k fs catalog width line_height ratio_delta
             = Some (bind_error (build_line fs selected ratios width line_height)
                       (\<lambda>line. Inr ((line, iters), k')))
           \<and> new_ratios line_ratio selected = Inr ratios
           \<and> ratios = map (\<lambda>item. ratio item + (line_ratio - sum_ratios selected) * ratio item / sum_ratios selected) selected
           \<and> sum_list ratios = of_int width / of_int line_height"
proof -
  from select_loop_exit[OF assms(2)]
  have "0 < min_ratio" "min_ratio \<le> sum_ratios selected" by auto
  then have nz: "sum_ratios selected \<noteq> 0" by auto
  let ?ratios = "map (\<lambda>item. ratio item + (line_ratio - sum_ratios selected) * ratio item / sum_ratios selected) selected"
  have s: "sum_list ?ratios = line_ratio"
    by (rule corrected_sum[OF nz]) (simp add: sum_ratios_def)
  have nr: "new_ratios line_ratio selected = Inr ?ratios" by (rule new_ratios_Inr[OF nz])
  have cl: "create_line rnd k fs catalog width line_height ratio_delta
             = Some (bind_error (build_line fs selected ?ratios width line_height)
                       (\<lambda>line. Inr ((line, iters), k')))"
    by (simp add: create_line_def assms bind_result_def nr bind_error_Inr)
  from cl nr s line_bounds_Inr(1)[OF assms(1)] show ?thesis by blast
qed

text \<open>A line of 26 by 10 pixels filled from the two sample pictures: the sum 5/2 of the
  selection is corrected to 13/5, and the strip is built from the ratios 52/25 and
  13/25.\<close>

theorem create_line_corrected_sum_witness:
  "line_bounds 26 10 (1 / 20) = Inr (13 / 5, 52 / 21, 52 / 19)
   \<and> select_loop (\<lambda>k. k) [wide, tall] (52 / 21) (52 / 19) 0 0 [] = Some (Inr (2, 1, [wide, tall]))
   \<and> new_ratios (13 / 5) [wide, tall] = Inr [52 / 25, 13 / 25]
   \<and> sum_list [52 / 25, 13 / 25] = (rat_of_int 26 / rat_of_int 10)
   \<and> create_line (\<lambda>k. k) 0 demo_fs [wide, tall] 26 10 (1 / 20)
       = Some (Inr ((Pasted
                       (Pasted (Blank 26 10)
                          (Resized (Cropped (Decoded ''/photos/a.jpg'' 4 2) 0 0 4 2) 21 10) 0 0)
                       (Resized (Cropped (Decoded ''/photos/b.jpg'' 100 200) 0 4 100 196) 5 10)
                       21 0, 1), 2))"
proof -
  have b: "line_bounds 26 10 (1 / 20) = Inr (13 / 5, 52 / 21, 52 / 19)"
    by code_simp
  have s: "select_loop (\<lambda>k. k) [wide, tall] (52 / 21) (52 / 19) 0 0 [] = Some (Inr (2, 1, [wide, tall]))"
    by code_simp
  have bl: "build_line demo_fs [wide, tall] [52 / 25, 13 / 25] 26 10
              = Inr (Pasted
                       (Pasted (Blank 26 10)
                          (Resized (Cropped (Decoded ''/photos/a.jpg'' 4 2) 0 0 4 2) 21 10) 0 0)
                       (Resized (Cropped (Decoded ''/photos/b.jpg'' 100 200) 0 4 100 196) 5 10)
                       21 0)"
    by code_simp
  have m: "map (\<lambda>item. ratio item + (13 / 5 - sum_ratios [wide, tall]) * ratio item / sum_ratios [wide, tall]) [wide, tall]
             = [52 / 25, 13 / 25]"
    by (simp add: sum_ratios_def wide_def tall_def)
  from create_line_corrected_sum[OF b s, of demo_fs] obtain ratios where
    c: "create_line (\<lambda>k. k) 0 demo_fs [wide, tall] 26 10 (1 / 20)
          = Some (bind_error (build_line demo_fs [wide, tall] ratios 26 10)
                    (\<lambda>line. Inr ((line, 1), 2)))"
    and n: "new_ratios (13 / 5) [wide, tall] = Inr ratios"
    and r: "ratios = map (\<lambda>item. ratio item + (13 / 5 - sum_ratios [wide, tall]) * ratio item / sum_ratios [wide, tall]) [wide, tall]"
    and t: "sum_list ratios = rat_of_int 26 / rat_of_int 10"
    by blast
  from r m have e: "ratios = [52 / 25, 13 / 25]" by (simp only:)
  from c n t show ?thesis
    unfolding e by (simp only: b s bl bind_error_Inr simp_thms)
qed



subsection \<open>A catalog of one image\<close>

lemma fill_selection_single:
  assumes "0 < min_ratio" "min_ratio \<le> ratio img"
  shows "fill_selection rnd [img] min_ratio k [] = Some (Inr (Suc k, [img]))"
proof -
  have a: "sum_ratios [] < min_ratio" using assms by (simp add: sum_ratios_def)
  have b: "\<not> sum_ratios ([] @ [img]) < min_ratio" using assms by (simp add: sum_ratios_def)
  have c: "choice (rnd k) [img] = Inr img" by (simp add: choice_def)
  have "fill_selection rnd [img] min_ratio k [] = fill_selection rnd [img] min_ratio (Suc k) ([] @ [img])"
    by (subst fill_selection.simps) (simp add: a c)
  also have "\<dots> = Some (Inr (Suc k, [] @ [img]))"
    by (subst fill_selection.simps) (simp only: b if_False)
  finally show ?thesis by simp
qed



text \<open>No result is possible when the only image is too wide: every pass ends in the
  same state it started from.\<close>

lemma select_loop_single_reject:
  assumes "0 < min_ratio" "min_ratio \<le> ratio img" "max_ratio < ratio img"
  shows "select_loop rnd [img] min_ratio max_ratio k iters [] = None"
proof (rule ccontr)
  assume "select_loop rnd [img] min_ratio max_ratio k iters [] \<noteq> None"
  then obtain res where res: "select_loop rnd [img] min_ratio max_ratio k iters [] = Some res"
    by auto
  have big: "max_ratio < sum_ratios [img]" using assms by (simp add: sum_ratios_def)
  have "rnd = rnd \<and> [img] = [img] \<and> min_ratio = min_ratio \<and> max_ratio = max_ratio
          \<and> ([]::image_record list) = [] \<longrightarrow> False"
  proof (rule select_loop.raw_induct
      [where P = "\<lambda>rnd' catalog' min' max' k' iters' sel' res'.
           rnd' = rnd \<and> catalog' = [img] \<and> min' = min_ratio \<and> max' = max_ratio \<and> sel' = [] \<longrightarrow> False",
       OF _ res], goal_cases)
    case (1 f rnd' catalog' min' max' k' iters' sel' res')
    show ?case
    proof
      assume eq: "rnd' = rnd \<and> catalog' = [img] \<and> min' = min_ratio \<and> max' = max_ratio \<and> sel' = []"
      with 1(2) big have "f rnd [img] min_ratio max_ratio (Suc k') (iters' + 1) [] = Some res'"
        by (simp add: fill_selection_single[OF assms(1,2)])
      from 1(1)[OF this] show False by simp
    qed
  qed
  then show False by simp
qed



text \<open>
  Claim C4. The selection loop has no iteration cap. For a positive width and line height
  and a tolerance in \<open>[0, 1)\<close>, and a catalog whose only image has a ratio above
  \<^verbatim>\<open>max_ratio\<close>, every pass appends that image once, the sum exceeds \<^verbatim>\<open>max_ratio\<close>,
  and the loop, started after any number of draws and passes, never returns; neither
  does \<^verbatim>\<open>create_line\<close>.
\<close>

theorem single_wide_image_never_returns:
  assumes "0 < width" "0 < line_height" "0 \<le> ratio_delta" "ratio_delta < 1"
    and "of_int width / (of_int line_height - ratio_delta * of_int line_height) < ratio img"
  shows "fill_selection rnd [img]
           (of_int width / (of_int line_height + ratio_delta * of_int line_height)) k []
           = Some (Inr (Suc k, [img]))
       \<and> of_int width / (of_int line_height - ratio_delta * of_int line_height) < sum_ratios [img]
       \<and> select_loop rnd [img]
           (of_int width / (of_int line_height + ratio_delta * of_int line_height))
           (of_int width / (of_int line_height - ratio_delta * of_int line_height)) k iters []
           = None
       \<and> create_line rnd k fs [img] width line_height ratio_delta = None"
proof -
  note lb = line_bounds_domain[OF assms(1-4)]
  have mn: "of_int width / (of_int line_height + ratio_delta * of_int line_height) \<le> ratio img"
    using lb(3) assms(5) by simp
  have none: "\<And>k iters. select_loop rnd [img]
           (of_int width / (of_int line_height + ratio_delta * of_int line_height))
           (of_int width / (of_int line_height - ratio_delta * of_int line_height)) k iters [] = None"
    by (rule select_loop_single_reject[OF lb(2) mn assms(5)])
  have "create_line rnd k fs [img] width line_height ratio_delta = None"
    by (simp add: create_line_def lb(1) none bind_result_def)
  with none fill_selection_single[OF lb(2) mn] assms(5) show ?thesis
    by (simp add: sum_ratios_def)
qed

text \<open>A line of 100 by 100 pixels and the wide sample picture alone: its ratio 2 is above
  \<^verbatim>\<open>max_ratio\<close> = 20/19.\<close>

theorem single_wide_image_never_returns_witness:
  "rat_of_int 100 / (rat_of_int 100 - 1 / 20 * rat_of_int 100) < ratio wide
   \<and> select_loop (\<lambda>k. 0) [wide]
       (rat_of_int 100 / (rat_of_int 100 + 1 / 20 * rat_of_int 100))
       (rat_of_int 100 / (rat_of_int 100 - 1 / 20 * rat_of_int 100)) 0 0 [] = None
   \<and> create_line (\<lambda>k. 0) 0 demo_fs [wide] 100 100 (1 / 20) = None"
proof -
  have hi: "rat_of_int 100 / (rat_of_int 100 - 1 / 20 * rat_of_int 100) < ratio wide"
    by (simp add: wide_def)
  from single_wide_image_never_returns[of 100 100 "1 / 20" wide "\<lambda>k. 0" 0 0 demo_fs, OF _ _ _ _ hi] hi
  show ?thesis by simp
qed



subsection \<open>Rounding\<close>








subsection \<open>Cropping\<close>






subsection \<open>Assembling the collage\<close>




text \<open>
  Claim C10. For a positive width and height and more lines than the height,
  \<^verbatim>\<open>collage\<close> computes a line height of zero and the first call of \<^verbatim>\<open>create_line\<close>
  raises \<^verbatim>\<open>ZeroDivisionError\<close> at \<^verbatim>\<open>width / line_height\<close>: no image is returned.
\<close>

theorem collage_too_many_lines:
  assumes "0 < width" "0 < height" "height < lines"
  shows "collage rnd k fs catalog width height lines ratio_delta = Some (Inl ZeroDivisionError)"
proof -
  have d: "height div lines = 0" using assms by simp
  have fd: "floordiv height lines = Inr 0" using assms d by (simp add: floordiv_def)
  have new: "Image_new (width, 0 * lines) = Inr (Blank width 0)"
    using assms by (simp add: Image_new_def)
  have "0 < nat lines" using assms by simp
  then have r: "py_range lines = 0 # map int [Suc 0..<nat lines]"
    by (simp add: py_range_def upt_conv_Cons)
  have lb: "line_bounds width 0 ratio_delta = Inl ZeroDivisionError"
    by (simp add: line_bounds_def truediv_def bind_error_def)
  have cl: "\<And>k. create_line rnd k fs catalog width 0 ratio_delta = Some (Inl ZeroDivisionError)"
    by (simp add: create_line_def lb)
  have "collage_canvas rnd k fs catalog width height lines ratio_delta = Some (Inl ZeroDivisionError)"
    using new by (simp add: collage_canvas_def fd r cl bind_result_def)
  then show ?thesis by (simp add: collage_def bind_result_def)
qed

theorem collage_too_many_lines_witness:
  "(0::int) < 4 \<and> (0::int) < 2 \<and> (2::int) < 3
   \<and> collage (\<lambda>k. 0) 0 demo_fs [wide] 4 2 3 (1 / 20) = Some (Inl ZeroDivisionError)"
  using collage_too_many_lines[of 4 2 3 "\<lambda>k. 0" 0 demo_fs "[wide]" "1 / 20"] by simp

subsection \<open>Paths and files\<close>

lemma get_files_photos:
  "get_files demo_fs ''/photos'' file_extensions = Inr [''/photos/.hidden.jpg'', ''/photos/a.jpg'']"
  by code_simp

text \<open>
  Claim C7 does not hold of a list whose elements are not paths: the \<^verbatim>\<open>match\<close>
  statement takes any list down its second arm. In an empty current directory the list
  \<^verbatim>\<open>[None]\<close> is accepted and no error is raised at all. With \<^verbatim>\<open>["/photos", x]\<close>,
  \<open>x\<close> an object that is not a path, the directory \<^verbatim>\<open>/photos\<close> has been scanned and
  two attributes assigned by the time \<^verbatim>\<open>os.listdir(x)\<close> raises \<^verbatim>\<open>TypeError\<close>.
\<close>

theorem update_path_list_of_other_values:
  "update_path empty_dir_fs fresh_collager (PyList [PyNone])
     = (\<lparr>image_path = [PyNone], image_files = [], image_data = []\<rparr>, None)
   \<and> new_collager empty_dir_fs (PyList [PyNone])
     = Inr \<lparr>image_path = [PyNone], image_files = [], image_data = []\<rparr>
   \<and> update_path demo_fs fresh_collager (PyList [PyStr ''/photos'', PyObject])
     = (\<lparr>image_path = [PyStr ''/photos'', PyObject],
         image_files = [''/photos/.hidden.jpg'', ''/photos/a.jpg''],
         image_data = []\<rparr>, Some TypeError)"
proof -
  have "update_path empty_dir_fs fresh_collager (PyList [PyNone])
          = (\<lparr>image_path = [PyNone], image_files = [], image_data = []\<rparr>, None)"
    by (simp add: update_path_def fresh_collager_def empty_dir_fs_def get_files_any_def
          get_aspect_ratios_def)
  moreover have "new_collager empty_dir_fs (PyList [PyNone])
          = Inr \<lparr>image_path = [PyNone], image_files = [], image_data = []\<rparr>"
    by (simp add: new_collager_def update_path_def empty_dir_fs_def get_files_any_def
          get_aspect_ratios_def)
  moreover have "update_path demo_fs fresh_collager (PyList [PyStr ''/photos'', PyObject])
          = (\<lparr>image_path = [PyStr ''/photos'', PyObject],
              image_files = [''/photos/.hidden.jpg'', ''/photos/a.jpg''],
              image_data = []\<rparr>, Some TypeError)"
    by (simp add: update_path_def fresh_collager_def get_files_any_def get_files_photos)
  ultimately show ?thesis by simp
qed

text \<open>
  Claim C7, amended. For an argument that is neither a \<^verbatim>\<open>str\<close> nor a \<^verbatim>\<open>list\<close>,
  \<^verbatim>\<open>update_path\<close> raises \<^verbatim>\<open>TypeError\<close> and leaves the object as it was: no attribute
  is assigned, and the result is the same for every file system, none of which is
  consulted. The constructor raises the same error and yields no object. (A list is
  taken down the second arm whatever its elements are.)
\<close>

theorem update_path_type_error:
  assumes "\<not> is_str arg" "\<not> is_list arg"
  shows "update_path fs self arg = (self, Some TypeError)
         \<and> new_collager fs arg = Inl TypeError"
  using assms by (cases arg) (simp_all add: update_path_def new_collager_def)

theorem update_path_type_error_witness:
  "\<not> is_str (PyInt 7) \<and> \<not> is_list (PyInt 7)
   \<and> update_path demo_fs fresh_collager (PyInt 7) = (fresh_collager, Some TypeError)
   \<and> new_collager demo_fs (PyInt 7) = Inl TypeError"
  using update_path_type_error[of "PyInt 7" demo_fs fresh_collager] by simp

text \<open>
  Claim C8 asks that \<^verbatim>\<open>get_files\<close> return exactly the regular files whose name does not
  begin with a dot and whose extension is allowed. The source tests
  \<^verbatim>\<open>file.startswith(".")\<close> on the joined path, not on the file name: in \<^verbatim>\<open>/photos\<close>
  the hidden picture \<^verbatim>\<open>.hidden.jpg\<close> is returned, and in the directory \<^verbatim>\<open>.\<close> the
  picture \<^verbatim>\<open>a.jpg\<close> is not.
\<close>

theorem get_files_tests_joined_path:
  "get_files demo_fs ''/photos'' file_extensions = Inr [''/photos/.hidden.jpg'', ''/photos/a.jpg'']
   \<and> get_files demo_fs ''.'' file_extensions = Inr []
   \<and> path_join ''.'' ''a.jpg'' = ''./a.jpg''
   \<and> isfile demo_fs ''./a.jpg''
   \<and> drop 1 (snd (splitext ''./a.jpg'')) = ''jpg''"
  by code_simp

end
